theory Spec2Isabelle
  imports Complex_Main
begin

section \<open>Python values\<close>

text \<open>
  A Python \<open>str\<close> is a \<open>string\<close>; a character is read as the code point of its number
  (U+0000 to U+00FF), so that \<open>length\<close>, \<open>find\<close> and slicing count what Python counts.
  The values that \<open>json.loads\<close> and the webhook body deliver are \<open>None\<close>, booleans,
  numbers, strings, lists and dictionaries. A dictionary is an association list read with
  \<open>map_of\<close>: the first binding of a key is the one that counts.
\<close>

datatype json =
    JNull
  | JBool bool
  | JInt int
  | JFloat real
  | JStr string
  | JList "json list"
  | JDict "(string \<times> json) list"

text \<open>
  The exceptions the modelled code raises. \<open>RuntimeError\<close> and \<open>ValueError\<close> carry
  \<open>str(e)\<close>. \<open>ValidationError\<close> is pydantic's, raised when a model is constructed from
  values that break its field declarations; \<open>TypeError\<close> is raised by \<open>Model(**x)\<close> when
  \<open>x\<close> is not a mapping. All of them are instances of \<open>Exception\<close>.
\<close>

datatype pyexn =
    RuntimeError string
  | ValueError string
  | TypeError
  | ValidationError

text \<open>Truth value of a Python object, as \<open>if content:\<close> tests it.\<close>

fun truthy :: "json \<Rightarrow> bool" where
  "truthy JNull = False"
| "truthy (JBool b) = b"
| "truthy (JInt i) = (i \<noteq> 0)"
| "truthy (JFloat x) = (x \<noteq> 0)"
| "truthy (JStr s) = (s \<noteq> [])"
| "truthy (JList xs) = (xs \<noteq> [])"
| "truthy (JDict kvs) = (kvs \<noteq> [])"

subsection \<open>String operations\<close>

text \<open>\<open>str.isspace\<close> on one character, for the code points below 256.\<close>

definition str_isspace :: "char \<Rightarrow> bool" where
  "str_isspace c =
     ((of_char c :: nat) \<in> set [9, 10, 11, 12, 13, 28, 29, 30, 31, 32, 133, 160])"

text \<open>\<open>s.strip()\<close>: whitespace removed at both ends.\<close>

definition strip :: "string \<Rightarrow> string" where
  "strip s = rev (dropWhile str_isspace (rev (dropWhile str_isspace s)))"

text \<open>\<open>s[k : k + len(sub)] == sub\<close>: an occurrence of \<open>sub\<close> starts at index \<open>k\<close>.\<close>

definition occurs_at :: "string \<Rightarrow> string \<Rightarrow> nat \<Rightarrow> bool" where
  "occurs_at sub s k = (k \<le> length s \<and> take (length sub) (drop k s) = sub)"

text \<open>
  The scan behind \<open>str.find\<close>: the lowest index of an occurrence of \<open>sub\<close> in the rest
  \<open>s\<close> of the text, where \<open>i\<close> is the index of the head of \<open>s\<close>; \<open>-1\<close> when there is none.
\<close>

fun find_scan :: "string \<Rightarrow> string \<Rightarrow> nat \<Rightarrow> int" where
  "find_scan sub [] i = (if sub = [] then int i else - 1)"
| "find_scan sub (c # cs) i =
     (if take (length sub) (c # cs) = sub then int i else find_scan sub cs (Suc i))"

text \<open>\<open>s.find(sub, start)\<close>; a negative \<open>start\<close> counts from the end.\<close>

definition str_find :: "string \<Rightarrow> string \<Rightarrow> int \<Rightarrow> int" where
  "str_find s sub start =
     (let n = int (length s);
          lo = (if start < 0 then max 0 (n + start) else start)
      in if n < lo then - 1 else find_scan sub (drop (nat lo) s) (nat lo))"

text \<open>\<open>sub in s\<close>.\<close>

definition str_contains :: "string \<Rightarrow> string \<Rightarrow> bool" where
  "str_contains sub s = (str_find s sub 0 \<noteq> - 1)"

text \<open>\<open>s[a:b]\<close>: negative bounds count from the end, and both are clipped to the text.\<close>

definition slice :: "string \<Rightarrow> int \<Rightarrow> int \<Rightarrow> string" where
  "slice s a b =
     (let n = int (length s);
          lo = (if a < 0 then max 0 (n + a) else min a n);
          hi = (if b < 0 then max 0 (n + b) else min b n)
      in take (nat (hi - lo)) (drop (nat lo) s))"

text \<open>Decimal text of an integer, as an f-string renders it.\<close>

fun str_nat :: "nat \<Rightarrow> string" where
  "str_nat n =
     (if n < 10 then [char_of (48 + n)]
      else str_nat (n div 10) @ [char_of (48 + n mod 10)])"

declare str_nat.simps [simp del]

definition str_int :: "int \<Rightarrow> string" where
  "str_int i = (if i < 0 then CHR ''-'' # str_nat (nat (- i)) else str_nat (nat i))"

section \<open>The library the agents call\<close>

text \<open>
  \<open>json.loads\<close> and pydantic's conversion of a Python value to \<open>int\<close>, \<open>bool\<close> and
  \<open>float\<close> are library code; they are parameters of the model. \<open>json_loads\<close> returns
  \<open>Inl\<close> with the text of the \<open>JSONDecodeError\<close> when the text is not JSON. A conversion
  returns \<open>None\<close> where pydantic rejects the value for that type.
\<close>

record pylib =
  json_loads :: "string \<Rightarrow> string + json"
  as_int :: "json \<Rightarrow> int option"
  as_bool :: "json \<Rightarrow> bool option"
  as_float :: "json \<Rightarrow> real option"

text \<open>A \<open>str\<close> field takes a string and nothing else among the values above.\<close>

fun as_str :: "json \<Rightarrow> string option" where
  "as_str (JStr s) = Some s"
| "as_str _ = None"

text \<open>A \<open>list[str]\<close> field: a list whose elements are all strings.\<close>

fun all_str :: "json list \<Rightarrow> string list option" where
  "all_str [] = Some []"
| "all_str (x # xs) =
     (case as_str x of
        None \<Rightarrow> None
      | Some s \<Rightarrow> (case all_str xs of None \<Rightarrow> None | Some ss \<Rightarrow> Some (s # ss)))"

fun as_str_list :: "json \<Rightarrow> string list option" where
  "as_str_list (JList xs) = all_str xs"
| "as_str_list _ = None"

section \<open>The generation service\<close>

text \<open>
  What one call of \<open>self.model.generate_content\<close> does is an input of the model: the
  service is remote and its reply is not a function of the prompt. Either the call raises
  (\<open>Raises\<close>, with \<open>str(e)\<close>), or it returns a response with its list of candidates and
  what reading \<open>response.text\<close> gives (\<open>Inl\<close> when the accessor raises, with \<open>str(e)\<close>).
  Of a candidate the code reads \<open>finish_reason\<close> and whether \<open>content\<close> and
  \<open>content.parts\<close> are both non-empty.
\<close>

record candidate =
  finish_reason :: int
  has_content_parts :: bool

datatype generation =
    Raises string
  | Response "candidate list" "string + string"

text \<open>\<open>f"Agent {self.model_name} failed: {e}"\<close>\<close>

definition agent_failed :: "string \<Rightarrow> string \<Rightarrow> string" where
  "agent_failed model_name e = ''Agent '' @ model_name @ '' failed: '' @ e"

text \<open>\<open>finish_reasons.get(candidate.finish_reason, f"Unknown ({candidate.finish_reason})")\<close>\<close>

definition finish_reasons :: "int \<Rightarrow> string" where
  "finish_reasons r =
     (if r = 2 then ''SAFETY - Response blocked by safety filters''
      else if r = 3 then ''RECITATION - Response blocked due to recitation''
      else if r = 4 then ''OTHER - Response stopped for other reasons''
      else ''Unknown ('' @ str_int r @ '')'')"

text \<open>
  \<open>BaseAgent.generate_response\<close>. Every exception inside the \<open>try\<close>, the code's own
  \<open>RuntimeError\<close>s included, leaves as \<open>RuntimeError(f"Agent ... failed: {e}")\<close>.
\<close>

definition generate_response :: "string \<Rightarrow> generation \<Rightarrow> pyexn + string" where
  "generate_response model_name g =
     (case g of
        Raises e \<Rightarrow> Inl (RuntimeError (agent_failed model_name e))
      | Response candidates text \<Rightarrow>
          (case candidates of
             [] \<Rightarrow>
               Inl (RuntimeError (agent_failed model_name
                 ''No response candidates returned. Likely blocked by safety filters.''))
           | candidate # _ \<Rightarrow>
               if finish_reason candidate \<noteq> 1 then
                 Inl (RuntimeError
                        (agent_failed model_name (finish_reasons (finish_reason candidate))))
               else if \<not> has_content_parts candidate then
                 Inl (RuntimeError (agent_failed model_name ''Response has no content parts''))
               else
                 (case text of
                    Inl e \<Rightarrow> Inl (RuntimeError (agent_failed model_name e))
                  | Inr t \<Rightarrow> Inr t)))"

text \<open>
  The value of \<open>response_text\<close> when \<open>BaseAgent._parse_json_response\<close> reaches
  \<open>json.loads\<close>: the inside of the first code block when the text has a fence.
\<close>

definition code_block_text :: "string \<Rightarrow> string" where
  "code_block_text response_text =
     (if str_contains ''```json'' response_text then
        (let json_start = str_find response_text ''```json'' 0 + 7;
             json_end = str_find response_text ''```'' json_start
         in strip (slice response_text json_start json_end))
      else if str_contains ''```'' response_text then
        (let json_start = str_find response_text ''```'' 0 + 3;
             json_end = str_find response_text ''```'' json_start
         in strip (slice response_text json_start json_end))
      else response_text)"

text \<open>\<open>f"Failed to parse JSON response: {e}\nResponse: {response_text}"\<close>\<close>

definition parse_failed :: "string \<Rightarrow> string \<Rightarrow> string" where
  "parse_failed e response_text =
     ''Failed to parse JSON response: '' @ e @ [CHR 0x0A] @ ''Response: '' @ response_text"

text \<open>\<open>BaseAgent._parse_json_response\<close>\<close>

definition parse_json_response :: "pylib \<Rightarrow> string \<Rightarrow> pyexn + json" where
  "parse_json_response lib response_text =
     (let response_text' = code_block_text response_text
      in case json_loads lib response_text' of
           Inl e \<Rightarrow> Inl (ValueError (parse_failed e response_text'))
         | Inr v \<Rightarrow> Inr v)"

section \<open>Models (\<open>models/analysis_models.py\<close>)\<close>

record SentimentCounts =
  positive :: int
  negative :: int

text \<open>\<open>SentimentCounts(positive=p, negative=n)\<close>: both fields are declared \<open>Field(ge=0)\<close>.\<close>

definition SentimentCounts_new :: "int \<Rightarrow> int \<Rightarrow> pyexn + SentimentCounts" where
  "SentimentCounts_new p n =
     (if 0 \<le> p \<and> 0 \<le> n then Inr \<lparr>positive = p, negative = n\<rparr> else Inl ValidationError)"

text \<open>A \<open>SentimentCounts\<close> field given a parsed value: a dictionary with both counts.\<close>

definition SentimentCounts_validate :: "pylib \<Rightarrow> json \<Rightarrow> pyexn + SentimentCounts" where
  "SentimentCounts_validate lib v =
     (case v of
        JDict kw \<Rightarrow>
          (case map_of kw ''positive'' of
             None \<Rightarrow> Inl ValidationError
           | Some p \<Rightarrow>
               (case map_of kw ''negative'' of
                  None \<Rightarrow> Inl ValidationError
                | Some n \<Rightarrow>
                    (case as_int lib p of
                       None \<Rightarrow> Inl ValidationError
                     | Some p' \<Rightarrow>
                         (case as_int lib n of
                            None \<Rightarrow> Inl ValidationError
                          | Some n' \<Rightarrow> SentimentCounts_new p' n'))))
      | _ \<Rightarrow> Inl ValidationError)"

record StressDetectionResult =
  stressed_detected :: bool
  confidence :: "real option"

record SentimentAnalysisResult =
  sentiment_counts :: SentimentCounts

record StressorIdentificationResult =
  top_stressors :: string

record BlockerIdentificationResult =
  common_blockers :: string

record SeverityClassificationResult =
  is_severe_case :: bool
  severity_indicators :: "string list option"

text \<open>
  \<open>confidence: Optional[float] = Field(None, ge=0.0, le=1.0)\<close>: absent or \<open>None\<close> gives
  \<open>None\<close>, any other value must convert to a float in the range.
\<close>

definition confidence_field :: "pylib \<Rightarrow> (string \<times> json) list \<Rightarrow> pyexn + real option" where
  "confidence_field lib kw =
     (case map_of kw ''confidence'' of
        None \<Rightarrow> Inr None
      | Some JNull \<Rightarrow> Inr None
      | Some v \<Rightarrow>
          (case as_float lib v of
             None \<Rightarrow> Inl ValidationError
           | Some x \<Rightarrow> if 0 \<le> x \<and> x \<le> 1 then Inr (Some x) else Inl ValidationError))"

text \<open>\<open>severity_indicators: Optional[list[str]] = Field(None, ...)\<close>\<close>

definition severity_indicators_field ::
  "(string \<times> json) list \<Rightarrow> pyexn + string list option" where
  "severity_indicators_field kw =
     (case map_of kw ''severity_indicators'' of
        None \<Rightarrow> Inr None
      | Some JNull \<Rightarrow> Inr None
      | Some v \<Rightarrow>
          (case as_str_list v of
             None \<Rightarrow> Inl ValidationError
           | Some xs \<Rightarrow> Inr (Some xs)))"

text \<open>
  \<open>top_stressors: str = Field(default="", ...)\<close> and the same for \<open>common_blockers\<close>: an
  absent key gives the default, a present one must be a string.
\<close>

definition str_field_default_empty :: "string \<Rightarrow> (string \<times> json) list \<Rightarrow> pyexn + string" where
  "str_field_default_empty name kw =
     (case map_of kw name of
        None \<Rightarrow> Inr []
      | Some v \<Rightarrow> (case as_str v of None \<Rightarrow> Inl ValidationError | Some s \<Rightarrow> Inr s))"

text \<open>
  The five result models built as \<open>Model(**result_dict)\<close>: \<open>TypeError\<close> when the parsed
  value is not a dictionary, \<open>ValidationError\<close> when a field is missing or ill-typed; keys
  the model does not declare are ignored.
\<close>

definition StressDetectionResult_new :: "pylib \<Rightarrow> json \<Rightarrow> pyexn + StressDetectionResult" where
  "StressDetectionResult_new lib result_dict =
     (case result_dict of
        JDict kw \<Rightarrow>
          (case map_of kw ''stressed_detected'' of
             None \<Rightarrow> Inl ValidationError
           | Some v \<Rightarrow>
               (case as_bool lib v of
                  None \<Rightarrow> Inl ValidationError
                | Some b \<Rightarrow>
                    (case confidence_field lib kw of
                       Inl e \<Rightarrow> Inl e
                     | Inr c \<Rightarrow>
                         Inr \<lparr>StressDetectionResult.stressed_detected = b, confidence = c\<rparr>)))
      | _ \<Rightarrow> Inl TypeError)"

definition SentimentAnalysisResult_new ::
  "pylib \<Rightarrow> json \<Rightarrow> pyexn + SentimentAnalysisResult" where
  "SentimentAnalysisResult_new lib result_dict =
     (case result_dict of
        JDict kw \<Rightarrow>
          (case map_of kw ''sentiment_counts'' of
             None \<Rightarrow> Inl ValidationError
           | Some v \<Rightarrow>
               (case SentimentCounts_validate lib v of
                  Inl e \<Rightarrow> Inl e
                | Inr c \<Rightarrow> Inr \<lparr>SentimentAnalysisResult.sentiment_counts = c\<rparr>))
      | _ \<Rightarrow> Inl TypeError)"

definition StressorIdentificationResult_new :: "json \<Rightarrow> pyexn + StressorIdentificationResult" where
  "StressorIdentificationResult_new result_dict =
     (case result_dict of
        JDict kw \<Rightarrow>
          (case str_field_default_empty ''top_stressors'' kw of
             Inl e \<Rightarrow> Inl e
           | Inr s \<Rightarrow> Inr \<lparr>StressorIdentificationResult.top_stressors = s\<rparr>)
      | _ \<Rightarrow> Inl TypeError)"

definition BlockerIdentificationResult_new :: "json \<Rightarrow> pyexn + BlockerIdentificationResult" where
  "BlockerIdentificationResult_new result_dict =
     (case result_dict of
        JDict kw \<Rightarrow>
          (case str_field_default_empty ''common_blockers'' kw of
             Inl e \<Rightarrow> Inl e
           | Inr s \<Rightarrow> Inr \<lparr>BlockerIdentificationResult.common_blockers = s\<rparr>)
      | _ \<Rightarrow> Inl TypeError)"

definition SeverityClassificationResult_new ::
  "pylib \<Rightarrow> json \<Rightarrow> pyexn + SeverityClassificationResult" where
  "SeverityClassificationResult_new lib result_dict =
     (case result_dict of
        JDict kw \<Rightarrow>
          (case map_of kw ''is_severe_case'' of
             None \<Rightarrow> Inl ValidationError
           | Some v \<Rightarrow>
               (case as_bool lib v of
                  None \<Rightarrow> Inl ValidationError
                | Some b \<Rightarrow>
                    (case severity_indicators_field kw of
                       Inl e \<Rightarrow> Inl e
                     | Inr xs \<Rightarrow>
                         Inr \<lparr>SeverityClassificationResult.is_severe_case = b,
                              severity_indicators = xs\<rparr>)))
      | _ \<Rightarrow> Inl TypeError)"

record CallAnalysis =
  stressed_detected :: bool
  sentiment_counts :: SentimentCounts
  top_stressors :: string
  common_blockers :: string
  is_severe_case :: bool

record CallAnalysisReport =
  call_id :: string
  call_duration_seconds :: real
  analysis_timestamp :: string
  analysis :: CallAnalysis

text \<open>
  \<open>CallAnalysisReport.create\<close>. \<open>now\<close> is \<open>datetime.utcnow().isoformat()\<close>. The arguments
  have their declared types; what the model can still reject is a duration below zero
  (\<open>call_duration_seconds: float = Field(ge=0, ...)\<close>).
\<close>

definition create ::
  "string \<Rightarrow> string \<Rightarrow> real \<Rightarrow> bool \<Rightarrow> SentimentCounts \<Rightarrow> string \<Rightarrow> string \<Rightarrow> bool
     \<Rightarrow> pyexn + CallAnalysisReport" where
  "create now call_id' call_duration_seconds' stressed_detected' sentiment_counts'
          top_stressors' common_blockers' is_severe_case' =
     (if 0 \<le> call_duration_seconds' then
        Inr \<lparr>call_id = call_id',
             call_duration_seconds = call_duration_seconds',
             analysis_timestamp = now @ ''Z'',
             analysis =
               \<lparr>CallAnalysis.stressed_detected = stressed_detected',
                CallAnalysis.sentiment_counts = sentiment_counts',
                CallAnalysis.top_stressors = top_stressors',
                CallAnalysis.common_blockers = common_blockers',
                CallAnalysis.is_severe_case = is_severe_case'\<rparr>\<rparr>
      else Inl ValidationError)"

section \<open>The five agents\<close>

text \<open>The model names of \<open>agents/config.py\<close>.\<close>

definition STRESS_DETECTOR_MODEL :: string where
  "STRESS_DETECTOR_MODEL = ''gemini-flash-latest''"

definition SENTIMENT_ANALYZER_MODEL :: string where
  "SENTIMENT_ANALYZER_MODEL = ''gemini-flash-latest''"

definition STRESSOR_FINDER_MODEL :: string where
  "STRESSOR_FINDER_MODEL = ''gemini-flash-latest''"

definition BLOCKER_FINDER_MODEL :: string where
  "BLOCKER_FINDER_MODEL = ''gemini-flash-latest''"

definition SEVERITY_CLASSIFIER_MODEL :: string where
  "SEVERITY_CLASSIFIER_MODEL = ''gemini-pro-latest''"

text \<open>
  Each agent builds its prompt from the transcript (the severity classifier from the
  duration too), sends it, parses the reply and constructs its result model. The prompt
  reaches the service only, whose reply \<open>g\<close> is the input here; building it raises nothing
  for a transcript of role and content strings.
\<close>

text \<open>\<open>StressDetectorAgent.detect_stress\<close>\<close>

definition detect_stress :: "pylib \<Rightarrow> generation \<Rightarrow> pyexn + StressDetectionResult" where
  "detect_stress lib g =
     (case generate_response STRESS_DETECTOR_MODEL g of
        Inl e \<Rightarrow> Inl e
      | Inr response_text \<Rightarrow>
          (case parse_json_response lib response_text of
             Inl e \<Rightarrow> Inl e
           | Inr result_dict \<Rightarrow> StressDetectionResult_new lib result_dict))"

text \<open>
  \<open>SentimentAnalyzerAgent.analyze_sentiment\<close>: a \<open>RuntimeError\<close> whose text contains
  \<open>SAFETY\<close> is answered with the neutral counts; any other exception is raised on.
\<close>

definition analyze_sentiment :: "pylib \<Rightarrow> generation \<Rightarrow> pyexn + SentimentAnalysisResult" where
  "analyze_sentiment lib g =
     (case (case generate_response SENTIMENT_ANALYZER_MODEL g of
              Inl e \<Rightarrow> Inl e
            | Inr response_text \<Rightarrow>
                (case parse_json_response lib response_text of
                   Inl e \<Rightarrow> Inl e
                 | Inr result_dict \<Rightarrow> SentimentAnalysisResult_new lib result_dict)) of
        Inl (RuntimeError e) \<Rightarrow>
          if str_contains ''SAFETY'' e then
            Inr \<lparr>SentimentAnalysisResult.sentiment_counts = \<lparr>positive = 0, negative = 0\<rparr>\<rparr>
          else Inl (RuntimeError e)
      | Inl e \<Rightarrow> Inl e
      | Inr result \<Rightarrow> Inr result)"

text \<open>\<open>StressorFinderAgent.identify_stressors\<close>\<close>

definition identify_stressors ::
  "pylib \<Rightarrow> generation \<Rightarrow> pyexn + StressorIdentificationResult" where
  "identify_stressors lib g =
     (case generate_response STRESSOR_FINDER_MODEL g of
        Inl e \<Rightarrow> Inl e
      | Inr response_text \<Rightarrow>
          (case parse_json_response lib response_text of
             Inl e \<Rightarrow> Inl e
           | Inr result_dict \<Rightarrow> StressorIdentificationResult_new result_dict))"

text \<open>\<open>BlockerFinderAgent.identify_blockers\<close>\<close>

definition identify_blockers ::
  "pylib \<Rightarrow> generation \<Rightarrow> pyexn + BlockerIdentificationResult" where
  "identify_blockers lib g =
     (case generate_response BLOCKER_FINDER_MODEL g of
        Inl e \<Rightarrow> Inl e
      | Inr response_text \<Rightarrow>
          (case parse_json_response lib response_text of
             Inl e \<Rightarrow> Inl e
           | Inr result_dict \<Rightarrow> BlockerIdentificationResult_new result_dict))"

text \<open>\<open>SeverityClassifierAgent.classify_severity\<close>\<close>

definition classify_severity ::
  "pylib \<Rightarrow> generation \<Rightarrow> pyexn + SeverityClassificationResult" where
  "classify_severity lib g =
     (case generate_response SEVERITY_CLASSIFIER_MODEL g of
        Inl e \<Rightarrow> Inl e
      | Inr response_text \<Rightarrow>
          (case parse_json_response lib response_text of
             Inl e \<Rightarrow> Inl e
           | Inr result_dict \<Rightarrow> SeverityClassificationResult_new lib result_dict))"

section \<open>The orchestrator (\<open>agents/orchestrator.py\<close>)\<close>

text \<open>
  What the world does during one run: whether \<open>asyncio.gather\<close> itself raises (with
  \<open>str(e)\<close>), what each of the five calls of the generation service does, and the clock.
\<close>

record env =
  gather_raises :: "string option"
  stress_detector_call :: generation
  sentiment_analyzer_call :: generation
  stressor_finder_call :: generation
  blocker_finder_call :: generation
  severity_classifier_call :: generation
  utcnow_isoformat :: string

text \<open>
  The wrappers \<open>_run_stress_detector\<close> to \<open>_run_severity_classifier\<close> turn an exception of
  their agent into a returned value: from here on \<open>Inl e\<close> is the exception object \<open>e\<close>
  held in a variable, no longer a raise.
\<close>

definition run_stress_detector :: "pylib \<Rightarrow> env \<Rightarrow> pyexn + StressDetectionResult" where
  "run_stress_detector lib w = detect_stress lib (stress_detector_call w)"

definition run_sentiment_analyzer :: "pylib \<Rightarrow> env \<Rightarrow> pyexn + SentimentAnalysisResult" where
  "run_sentiment_analyzer lib w = analyze_sentiment lib (sentiment_analyzer_call w)"

definition run_stressor_finder :: "pylib \<Rightarrow> env \<Rightarrow> pyexn + StressorIdentificationResult" where
  "run_stressor_finder lib w = identify_stressors lib (stressor_finder_call w)"

definition run_blocker_finder :: "pylib \<Rightarrow> env \<Rightarrow> pyexn + BlockerIdentificationResult" where
  "run_blocker_finder lib w = identify_blockers lib (blocker_finder_call w)"

definition run_severity_classifier ::
  "pylib \<Rightarrow> env \<Rightarrow> pyexn + SeverityClassificationResult" where
  "run_severity_classifier lib w = classify_severity lib (severity_classifier_call w)"

text \<open>
  \<open>OrchestratorAgent._extract_result\<close>, with the attribute as a selector. Each result
  model has the attribute asked of it, so \<open>getattr\<close> never falls back to its default.
\<close>

definition extract_result :: "pyexn + 'r \<Rightarrow> ('r \<Rightarrow> 'v) \<Rightarrow> 'v \<Rightarrow> 'v" where
  "extract_result result field default' =
     (case result of Inl e \<Rightarrow> default' | Inr r \<Rightarrow> field r)"

text \<open>\<open>OrchestratorAgent._extract_sentiment\<close>\<close>

definition extract_sentiment :: "pyexn + SentimentAnalysisResult \<Rightarrow> SentimentCounts" where
  "extract_sentiment result =
     (case result of
        Inl e \<Rightarrow> \<lparr>positive = 0, negative = 0\<rparr>
      | Inr r \<Rightarrow> SentimentAnalysisResult.sentiment_counts r)"

text \<open>
  \<open>OrchestratorAgent.analyze_call\<close>, the Aggregator's \<open>run\<close>. The transcript goes into
  the prompts and nowhere else.
\<close>

definition OrchestratorAgent_analyze_call ::
  "pylib \<Rightarrow> env \<Rightarrow> string \<Rightarrow> (string \<times> string) list \<Rightarrow> real \<Rightarrow> pyexn + CallAnalysisReport" where
  "OrchestratorAgent_analyze_call lib w call_id' transcript duration_seconds =
     (case gather_raises w of
        Some e \<Rightarrow> Inl (RuntimeError (''Critical failure in agent orchestration: '' @ e))
      | None \<Rightarrow>
          (let stress_result = run_stress_detector lib w;
               sentiment_result = run_sentiment_analyzer lib w;
               stressor_result = run_stressor_finder lib w;
               blocker_result = run_blocker_finder lib w;
               severity_result = run_severity_classifier lib w;
               stressed_detected' =
                 extract_result stress_result StressDetectionResult.stressed_detected False;
               sentiment_counts' = extract_sentiment sentiment_result;
               top_stressors' =
                 extract_result stressor_result StressorIdentificationResult.top_stressors [];
               common_blockers' =
                 extract_result blocker_result BlockerIdentificationResult.common_blockers [];
               is_severe_case' =
                 extract_result severity_result SeverityClassificationResult.is_severe_case False
           in create (utcnow_isoformat w) call_id' duration_seconds stressed_detected'
                sentiment_counts' top_stressors' common_blockers' is_severe_case'))"

section \<open>The entry point (\<open>call_analyzer.py\<close>)\<close>

text \<open>
  \<open>call_analyzer.analyze_call\<close>. \<open>processed_call_data\<close> is a dictionary of parsed values.
  \<open>run\<close> stands for \<open>get_orchestrator()\<close> followed by the orchestrator's \<open>analyze_call\<close>:
  whatever it does, it does to the state \<open>s\<close> of the world and returns the state after.
\<close>

definition required_fields :: "string list" where
  "required_fields = [''call_id'', ''duration_seconds'', ''transcript'']"

definition analyze_call ::
  "(json \<Rightarrow> json list \<Rightarrow> json \<Rightarrow> 's \<Rightarrow> (pyexn + CallAnalysisReport) \<times> 's)
     \<Rightarrow> (string \<times> json) list \<Rightarrow> 's \<Rightarrow> (pyexn + CallAnalysisReport) \<times> 's" where
  "analyze_call run processed_call_data s =
     (case filter (\<lambda>field. map_of processed_call_data field = None) required_fields of
        field # _ \<Rightarrow> (Inl (ValueError (''Missing required field: '' @ field)), s)
      | [] \<Rightarrow>
          (case (map_of processed_call_data ''call_id'',
                 map_of processed_call_data ''duration_seconds'',
                 map_of processed_call_data ''transcript'') of
             (Some call_id', Some duration_seconds, Some (JList transcript)) \<Rightarrow>
               if length transcript = 0 then
                 (Inl (ValueError ''Transcript must be a non-empty list''), s)
               else run call_id' transcript duration_seconds s
           | _ \<Rightarrow> (Inl (ValueError ''Transcript must be a non-empty list''), s)))"

section \<open>The webhook processor (\<open>processors/call_report_processor.py\<close>)\<close>

record TranscriptMessage =
  role :: string
  content :: string

text \<open>\<open>TranscriptMessage(role=role, content=content)\<close>: both fields are declared \<open>str\<close>.\<close>

definition TranscriptMessage_new :: "json \<Rightarrow> json \<Rightarrow> pyexn + TranscriptMessage" where
  "TranscriptMessage_new role' content' =
     (case as_str role' of
        None \<Rightarrow> Inl ValidationError
      | Some r \<Rightarrow>
          (case as_str content' of
             None \<Rightarrow> Inl ValidationError
           | Some c \<Rightarrow> Inr \<lparr>role = r, content = c\<rparr>))"

text \<open>\<open>raw_msg.get(key, default)\<close>\<close>

definition dict_get :: "(string \<times> json) list \<Rightarrow> string \<Rightarrow> json \<Rightarrow> json" where
  "dict_get d key default' = (case map_of d key of None \<Rightarrow> default' | Some v \<Rightarrow> v)"

text \<open>
  The loop of \<open>_transform_messages\<close>, with the list \<open>transcript\<close> built so far; an exception
  of the constructor ends it.
\<close>

fun transform_loop :: "TranscriptMessage list \<Rightarrow> json list \<Rightarrow> pyexn + TranscriptMessage list" where
  "transform_loop transcript [] = Inr transcript"
| "transform_loop transcript (raw_msg # rest) =
     (case raw_msg of
        JDict d \<Rightarrow>
          (let role' = dict_get d ''role'' (JStr ''unknown'');
               content' = dict_get d ''message'' (JStr [])
           in if truthy content' then
                (case TranscriptMessage_new role' content' of
                   Inl e \<Rightarrow> Inl e
                 | Inr m \<Rightarrow> transform_loop (transcript @ [m]) rest)
              else transform_loop transcript rest)
      | _ \<Rightarrow> transform_loop transcript rest)"

text \<open>\<open>_transform_messages\<close>\<close>

definition transform_messages :: "json list \<Rightarrow> pyexn + TranscriptMessage list" where
  "transform_messages raw_messages = transform_loop [] raw_messages"

section \<open>The persistence form (\<open>CallReportDB\<close>)\<close>

record CallReportDB =
  call_id :: string
  call_duration_seconds :: real
  stressed_detected :: bool
  sentiment_counts :: "(string \<times> int) list"
  top_stressors :: "string option"
  common_blockers :: "string option"
  is_severe_case :: bool

text \<open>\<open>analysis.sentiment_counts.model_dump()\<close>\<close>

definition model_dump :: "SentimentCounts \<Rightarrow> (string \<times> int) list" where
  "model_dump c = [(''positive'', positive c), (''negative'', negative c)]"

text \<open>
  \<open>CallReportDB.from_analysis_report\<close>. \<open>CallAnalysis\<close> declares both list fields \<open>str\<close>,
  so of the three \<open>isinstance\<close> branches the first is the one taken; an empty string is
  falsy and leaves \<open>None\<close>.
\<close>

definition from_analysis_report :: "CallAnalysisReport \<Rightarrow> CallReportDB" where
  "from_analysis_report report =
     (let analysis' = analysis report;
          top_stressors_str =
            (if CallAnalysis.top_stressors analysis' \<noteq> []
             then Some (CallAnalysis.top_stressors analysis') else None);
          common_blockers_str =
            (if CallAnalysis.common_blockers analysis' \<noteq> []
             then Some (CallAnalysis.common_blockers analysis') else None)
      in \<lparr>CallReportDB.call_id = CallAnalysisReport.call_id report,
          CallReportDB.call_duration_seconds = CallAnalysisReport.call_duration_seconds report,
          CallReportDB.stressed_detected = CallAnalysis.stressed_detected analysis',
          CallReportDB.sentiment_counts = model_dump (CallAnalysis.sentiment_counts analysis'),
          CallReportDB.top_stressors = top_stressors_str,
          CallReportDB.common_blockers = common_blockers_str,
          CallReportDB.is_severe_case = CallAnalysis.is_severe_case analysis'\<rparr>)"

text \<open>
  Modelled from the spec: the reconstruction of the Composite Analysis view from the
  flattened form. The repository flattens a report and has no function for the way back;
  this one reads the two counts out of the dictionary and reads an absent list as the
  empty comma-joined string. It is \<open>None\<close> when the dictionary lacks a count.
\<close>

definition to_composite_analysis :: "CallReportDB \<Rightarrow> CallAnalysis option" where
  "to_composite_analysis db =
     (case map_of (CallReportDB.sentiment_counts db) ''positive'' of
        None \<Rightarrow> None
      | Some p \<Rightarrow>
          (case map_of (CallReportDB.sentiment_counts db) ''negative'' of
             None \<Rightarrow> None
           | Some n \<Rightarrow>
               Some \<lparr>CallAnalysis.stressed_detected = CallReportDB.stressed_detected db,
                     CallAnalysis.sentiment_counts = \<lparr>positive = p, negative = n\<rparr>,
                     CallAnalysis.top_stressors =
                       (case CallReportDB.top_stressors db of None \<Rightarrow> [] | Some t \<Rightarrow> t),
                     CallAnalysis.common_blockers =
                       (case CallReportDB.common_blockers db of None \<Rightarrow> [] | Some t \<Rightarrow> t),
                     CallAnalysis.is_severe_case = CallReportDB.is_severe_case db\<rparr>))"

section \<open>Predicates for stating the transcript property\<close>

text \<open>
  An entry that the loop of \<open>_transform_messages\<close> keeps: a dictionary whose
  \<open>message\<close> is truthy (for a string: not empty).
\<close>

definition kept :: "json \<Rightarrow> bool" where
  "kept raw_msg =
     (case raw_msg of
        JDict d \<Rightarrow> truthy (dict_get d ''message'' (JStr []))
      | _ \<Rightarrow> False)"

text \<open>
  The transcript message \<open>m\<close> is the entry's role, or \<open>unknown\<close> when the entry has no
  role, with the entry's message as content.
\<close>

definition maps_to :: "json \<Rightarrow> TranscriptMessage \<Rightarrow> bool" where
  "maps_to raw_msg m =
     (case raw_msg of
        JDict d \<Rightarrow>
          dict_get d ''role'' (JStr ''unknown'') = JStr (role m) \<and>
          dict_get d ''message'' (JStr []) = JStr (content m)
      | _ \<Rightarrow> False)"

text \<open>The entry's role, where it has one, and its message are strings.\<close>

definition well_typed :: "json \<Rightarrow> bool" where
  "well_typed raw_msg =
     (case raw_msg of
        JDict d \<Rightarrow>
          as_str (dict_get d ''role'' (JStr ''unknown'')) \<noteq> None \<and>
          as_str (dict_get d ''message'' (JStr [])) \<noteq> None
      | _ \<Rightarrow> True)"

section \<open>Example inputs\<close>

text \<open>
  A library instance for the examples: conversions that take a value of the field's own
  type, and a \<open>json.loads\<close> that knows the five replies below.
\<close>

definition strict_int :: "json \<Rightarrow> int option" where
  "strict_int v = (case v of JInt i \<Rightarrow> Some i | _ \<Rightarrow> None)"

definition strict_bool :: "json \<Rightarrow> bool option" where
  "strict_bool v = (case v of JBool b \<Rightarrow> Some b | _ \<Rightarrow> None)"

definition strict_float :: "json \<Rightarrow> real option" where
  "strict_float v =
     (case v of JFloat x \<Rightarrow> Some x | JInt i \<Rightarrow> Some (real_of_int i) | _ \<Rightarrow> None)"

definition example_loads :: "string \<Rightarrow> string + json" where
  \<open>example_loads t =
     (if t = ''{"stressed_detected": true, "confidence": 0.9}'' then
        Inr (JDict [(''stressed_detected'', JBool True), (''confidence'', JFloat 0.9)])
      else if t = ''{"sentiment_counts": {"positive": 2, "negative": 1}}'' then
        Inr (JDict [(''sentiment_counts'',
                     JDict [(''positive'', JInt 2), (''negative'', JInt 1)])])
      else if t = ''{"top_stressors": "workload, deadlines"}'' then
        Inr (JDict [(''top_stressors'', JStr ''workload, deadlines'')])
      else if t = ''{"common_blockers": "waiting for approvals"}'' then
        Inr (JDict [(''common_blockers'', JStr ''waiting for approvals'')])
      else if t = ''{"is_severe_case": true, "severity_indicators": ["self-harm"]}'' then
        Inr (JDict [(''is_severe_case'', JBool True),
                    (''severity_indicators'', JList [JStr ''self-harm''])])
      else Inl ''Expecting value: line 1 column 1 (char 0)'')\<close>

definition example_lib :: pylib where
  "example_lib =
     \<lparr>json_loads = example_loads, as_int = strict_int, as_bool = strict_bool,
      as_float = strict_float\<rparr>"

definition stop :: candidate where
  "stop = \<lparr>finish_reason = 1, has_content_parts = True\<rparr>"

definition env_all_fail :: env where
  "env_all_fail =
     \<lparr>gather_raises = None,
      stress_detector_call = Raises ''timed out'',
      sentiment_analyzer_call = Raises ''timed out'',
      stressor_finder_call = Raises ''timed out'',
      blocker_finder_call = Raises ''timed out'',
      severity_classifier_call = Raises ''timed out'',
      utcnow_isoformat = ''2025-11-29T06:55:01.000000''\<rparr>"

definition env_all_succeed :: env where
  \<open>env_all_succeed =
     \<lparr>gather_raises = None,
      stress_detector_call =
        Response [stop] (Inr ''{"stressed_detected": true, "confidence": 0.9}''),
      sentiment_analyzer_call =
        Response [stop]
          (Inr (''```json'' @ [CHR 0x0A] @
                ''{"sentiment_counts": {"positive": 2, "negative": 1}}'' @ [CHR 0x0A] @
                ''```'')),
      stressor_finder_call = Response [stop] (Inr ''{"top_stressors": "workload, deadlines"}''),
      blocker_finder_call =
        Response [stop] (Inr ''{"common_blockers": "waiting for approvals"}''),
      severity_classifier_call =
        Response [stop] (Inr ''{"is_severe_case": true, "severity_indicators": ["self-harm"]}''),
      utcnow_isoformat = ''2025-11-29T06:55:01.000000''\<rparr>\<close>

definition env_gather_raises :: env where
  "env_gather_raises = env_all_succeed\<lparr>gather_raises := Some ''event loop is closed''\<rparr>"

definition example_raw_messages :: "json list" where
  "example_raw_messages =
     [JDict [(''role'', JStr ''user''), (''message'', JStr ''Hello''), (''time'', JInt 17)],
      JStr ''noise'',
      JDict [(''role'', JStr ''bot''), (''message'', JStr [])],
      JDict [(''role'', JStr ''system'')],
      JDict [(''message'', JStr ''Hi there!'')]]"

text \<open>An orchestrator that would leave its mark on the state if it were called.\<close>

definition example_run ::
  "json \<Rightarrow> json list \<Rightarrow> json \<Rightarrow> nat \<Rightarrow> (pyexn + CallAnalysisReport) \<times> nat" where
  "example_run call_id' transcript duration_seconds s = (Inl TypeError, Suc s)"

definition example_empty_call :: "(string \<times> json) list" where
  "example_empty_call =
     [(''call_id'', JStr ''call-1''), (''duration_seconds'', JFloat 45),
      (''transcript'', JList [])]"

definition example_json_fenced :: string where
  \<open>example_json_fenced =
     ''Here is the result:'' @ [CHR 0x0A] @ ''```json'' @ [CHR 0x0A] @
     ''{"sentiment_counts": {"positive": 2, "negative": 1}}'' @ [CHR 0x0A] @ ''```'' @
     [CHR 0x0A]\<close>

definition example_plain_fenced :: string where
  \<open>example_plain_fenced =
     ''```'' @ [CHR 0x0A] @ ''{"top_stressors": "workload, deadlines"}'' @ [CHR 0x0A] @ ''```''\<close>

section \<open>Construction of the report\<close>

lemma create_nonneg:
  "0 \<le> d \<Longrightarrow> create now cid d sd sc ts cb sv =
     Inr \<lparr>CallAnalysisReport.call_id = cid, CallAnalysisReport.call_duration_seconds = d,
          analysis_timestamp = now @ ''Z'',
          analysis = \<lparr>CallAnalysis.stressed_detected = sd, CallAnalysis.sentiment_counts = sc,
              CallAnalysis.top_stressors = ts, CallAnalysis.common_blockers = cb,
              CallAnalysis.is_severe_case = sv\<rparr>\<rparr>"
  by (simp add: create_def)

lemma create_Inr:
  "create now cid d sd sc ts cb sv = Inr rep \<Longrightarrow>
     0 \<le> d \<and>
     rep = \<lparr>CallAnalysisReport.call_id = cid, CallAnalysisReport.call_duration_seconds = d,
            analysis_timestamp = now @ ''Z'',
            analysis = \<lparr>CallAnalysis.stressed_detected = sd, CallAnalysis.sentiment_counts = sc,
              CallAnalysis.top_stressors = ts, CallAnalysis.common_blockers = cb,
              CallAnalysis.is_severe_case = sv\<rparr>\<rparr>"
  by (auto simp: create_def split: if_splits)

lemmas run_defs =
  run_stress_detector_def run_sentiment_analyzer_def run_stressor_finder_def
  run_blocker_finder_def run_severity_classifier_def

lemma run_report:
  assumes "gather_raises w = None" and "0 \<le> d"
  shows "OrchestratorAgent_analyze_call lib w cid transcript d =
     Inr \<lparr>CallAnalysisReport.call_id = cid, CallAnalysisReport.call_duration_seconds = d,
          analysis_timestamp = utcnow_isoformat w @ ''Z'',
          analysis =
            \<lparr>CallAnalysis.stressed_detected =
               extract_result (run_stress_detector lib w)
                 StressDetectionResult.stressed_detected False,
             CallAnalysis.sentiment_counts = extract_sentiment (run_sentiment_analyzer lib w),
             CallAnalysis.top_stressors =
               extract_result (run_stressor_finder lib w)
                 StressorIdentificationResult.top_stressors [],
             CallAnalysis.common_blockers =
               extract_result (run_blocker_finder lib w)
                 BlockerIdentificationResult.common_blockers [],
             CallAnalysis.is_severe_case =
               extract_result (run_severity_classifier lib w)
                 SeverityClassificationResult.is_severe_case False\<rparr>\<rparr>"
  using assms by (simp add: OrchestratorAgent_analyze_call_def Let_def create_nonneg)

section \<open>Sentiment counts are never negative\<close>

lemma SentimentCounts_new_nonneg:
  "SentimentCounts_new p n = Inr c \<Longrightarrow> 0 \<le> positive c \<and> 0 \<le> negative c"
  by (auto simp: SentimentCounts_new_def split: if_splits)

lemma SentimentCounts_validate_nonneg:
  "SentimentCounts_validate lib v = Inr c \<Longrightarrow> 0 \<le> positive c \<and> 0 \<le> negative c"
  unfolding SentimentCounts_validate_def
  by (auto split: json.splits option.splits dest: SentimentCounts_new_nonneg)

lemma SentimentAnalysisResult_new_nonneg:
  "SentimentAnalysisResult_new lib v = Inr r \<Longrightarrow>
     0 \<le> positive (SentimentAnalysisResult.sentiment_counts r) \<and>
     0 \<le> negative (SentimentAnalysisResult.sentiment_counts r)"
  unfolding SentimentAnalysisResult_new_def
  by (auto split: json.splits option.splits sum.splits dest: SentimentCounts_validate_nonneg)

lemma analyze_sentiment_nonneg:
  "analyze_sentiment lib g = Inr r \<Longrightarrow>
     0 \<le> positive (SentimentAnalysisResult.sentiment_counts r) \<and>
     0 \<le> negative (SentimentAnalysisResult.sentiment_counts r)"
  unfolding analyze_sentiment_def
  by (auto split: sum.splits pyexn.splits if_splits dest: SentimentAnalysisResult_new_nonneg)

lemma extract_sentiment_nonneg:
  "(\<And>r. result = Inr r \<Longrightarrow>
     0 \<le> positive (SentimentAnalysisResult.sentiment_counts r) \<and>
     0 \<le> negative (SentimentAnalysisResult.sentiment_counts r)) \<Longrightarrow>
   0 \<le> positive (extract_sentiment result) \<and> 0 \<le> negative (extract_sentiment result)"
  by (cases result) (auto simp: extract_sentiment_def)

lemma example_all_succeed:
  "OrchestratorAgent_analyze_call example_lib env_all_succeed ''call-1''
     [(''user'', ''hello'')] 45 =
   Inr \<lparr>CallAnalysisReport.call_id = ''call-1'',
        CallAnalysisReport.call_duration_seconds = 45,
        analysis_timestamp = ''2025-11-29T06:55:01.000000Z'',
        analysis = \<lparr>CallAnalysis.stressed_detected = True,
            CallAnalysis.sentiment_counts = \<lparr>positive = 2, negative = 1\<rparr>,
            CallAnalysis.top_stressors = ''workload, deadlines'',
            CallAnalysis.common_blockers = ''waiting for approvals'',
            CallAnalysis.is_severe_case = True\<rparr>\<rparr>"
  by code_simp

text \<open>
  C5. In every report that \<open>OrchestratorAgent.analyze_call\<close> returns, both sentiment
  counts are at least zero, whether the sentiment agent succeeded or failed: a count
  comes out of the validated \<open>SentimentCounts\<close> model, or it is the default zero.
\<close>

theorem report_sentiment_counts_nonneg:
  assumes "OrchestratorAgent_analyze_call lib w cid transcript d = Inr rep"
  shows "0 \<le> positive (CallAnalysis.sentiment_counts (analysis rep)) \<and>
         0 \<le> negative (CallAnalysis.sentiment_counts (analysis rep))"
proof -
  from assms obtain sd ts cb sv where
    rep: "create (utcnow_isoformat w) cid d sd (extract_sentiment (run_sentiment_analyzer lib w))
            ts cb sv = Inr rep"
    by (auto simp: OrchestratorAgent_analyze_call_def Let_def split: option.splits)
  have "0 \<le> positive (extract_sentiment (run_sentiment_analyzer lib w)) \<and>
        0 \<le> negative (extract_sentiment (run_sentiment_analyzer lib w))"
    by (rule extract_sentiment_nonneg)
       (auto simp: run_sentiment_analyzer_def dest: analyze_sentiment_nonneg)
  with create_Inr [OF rep] show ?thesis by simp
qed

theorem report_sentiment_counts_nonneg_witness:
  "OrchestratorAgent_analyze_call example_lib env_all_succeed ''call-1''
     [(''user'', ''hello'')] 45 =
   Inr \<lparr>CallAnalysisReport.call_id = ''call-1'',
        CallAnalysisReport.call_duration_seconds = 45,
        analysis_timestamp = ''2025-11-29T06:55:01.000000Z'',
        analysis = \<lparr>CallAnalysis.stressed_detected = True,
            CallAnalysis.sentiment_counts = \<lparr>positive = 2, negative = 1\<rparr>,
            CallAnalysis.top_stressors = ''workload, deadlines'',
            CallAnalysis.common_blockers = ''waiting for approvals'',
            CallAnalysis.is_severe_case = True\<rparr>\<rparr> \<and>
   (0::int) \<le> 2 \<and> (0::int) \<le> 1"
  using report_sentiment_counts_nonneg [OF example_all_succeed] example_all_succeed
  by simp

section \<open>Reduction of the five results\<close>

lemma example_all_fail:
  "detect_stress example_lib (stress_detector_call env_all_fail) =
     Inl (RuntimeError ''Agent gemini-flash-latest failed: timed out'')"
  "analyze_sentiment example_lib (sentiment_analyzer_call env_all_fail) =
     Inl (RuntimeError ''Agent gemini-flash-latest failed: timed out'')"
  "identify_stressors example_lib (stressor_finder_call env_all_fail) =
     Inl (RuntimeError ''Agent gemini-flash-latest failed: timed out'')"
  "identify_blockers example_lib (blocker_finder_call env_all_fail) =
     Inl (RuntimeError ''Agent gemini-flash-latest failed: timed out'')"
  "classify_severity example_lib (severity_classifier_call env_all_fail) =
     Inl (RuntimeError ''Agent gemini-pro-latest failed: timed out'')"
  by code_simp+

lemma example_units_succeed:
  "detect_stress example_lib (stress_detector_call env_all_succeed) =
     Inr \<lparr>StressDetectionResult.stressed_detected = True, confidence = Some 0.9\<rparr>"
  "analyze_sentiment example_lib (sentiment_analyzer_call env_all_succeed) =
     Inr \<lparr>SentimentAnalysisResult.sentiment_counts = \<lparr>positive = 2, negative = 1\<rparr>\<rparr>"
  "identify_stressors example_lib (stressor_finder_call env_all_succeed) =
     Inr \<lparr>StressorIdentificationResult.top_stressors = ''workload, deadlines''\<rparr>"
  "identify_blockers example_lib (blocker_finder_call env_all_succeed) =
     Inr \<lparr>BlockerIdentificationResult.common_blockers = ''waiting for approvals''\<rparr>"
  "classify_severity example_lib (severity_classifier_call env_all_succeed) =
     Inr \<lparr>SeverityClassificationResult.is_severe_case = True,
          severity_indicators = Some [''self-harm'']\<rparr>"
  by code_simp+

text \<open>
  C1. When the dispatch has run and each of the five agents raised, the run still returns
  a report, and the report is the one with the caller's identifier and duration, the
  clock's timestamp and every analysis field at its default: no stress, counts 0 and 0,
  no stressors, no blockers, not severe. The duration is one of the interface, not below
  zero.
\<close>

theorem all_units_fail_defaults:
  assumes "gather_raises w = None"
    and "detect_stress lib (stress_detector_call w) = Inl e1"
    and "analyze_sentiment lib (sentiment_analyzer_call w) = Inl e2"
    and "identify_stressors lib (stressor_finder_call w) = Inl e3"
    and "identify_blockers lib (blocker_finder_call w) = Inl e4"
    and "classify_severity lib (severity_classifier_call w) = Inl e5"
    and "0 \<le> duration_seconds"
  shows "OrchestratorAgent_analyze_call lib w cid transcript duration_seconds =
     Inr \<lparr>CallAnalysisReport.call_id = cid,
          CallAnalysisReport.call_duration_seconds = duration_seconds,
          analysis_timestamp = utcnow_isoformat w @ ''Z'',
          analysis = \<lparr>CallAnalysis.stressed_detected = False,
              CallAnalysis.sentiment_counts = \<lparr>positive = 0, negative = 0\<rparr>,
              CallAnalysis.top_stressors = [], CallAnalysis.common_blockers = [],
              CallAnalysis.is_severe_case = False\<rparr>\<rparr>"
  using assms
  by (simp add: OrchestratorAgent_analyze_call_def run_defs extract_result_def
      extract_sentiment_def create_nonneg)

theorem all_units_fail_defaults_witness:
  "gather_raises env_all_fail = None \<and>
   detect_stress example_lib (stress_detector_call env_all_fail) =
     Inl (RuntimeError ''Agent gemini-flash-latest failed: timed out'') \<and>
   analyze_sentiment example_lib (sentiment_analyzer_call env_all_fail) =
     Inl (RuntimeError ''Agent gemini-flash-latest failed: timed out'') \<and>
   identify_stressors example_lib (stressor_finder_call env_all_fail) =
     Inl (RuntimeError ''Agent gemini-flash-latest failed: timed out'') \<and>
   identify_blockers example_lib (blocker_finder_call env_all_fail) =
     Inl (RuntimeError ''Agent gemini-flash-latest failed: timed out'') \<and>
   classify_severity example_lib (severity_classifier_call env_all_fail) =
     Inl (RuntimeError ''Agent gemini-pro-latest failed: timed out'') \<and>
   (0::real) \<le> 45 \<and>
   OrchestratorAgent_analyze_call example_lib env_all_fail ''call-1'' [(''user'', ''hello'')] 45 =
     Inr \<lparr>CallAnalysisReport.call_id = ''call-1'',
          CallAnalysisReport.call_duration_seconds = 45,
          analysis_timestamp = ''2025-11-29T06:55:01.000000Z'',
          analysis = \<lparr>CallAnalysis.stressed_detected = False,
              CallAnalysis.sentiment_counts = \<lparr>positive = 0, negative = 0\<rparr>,
              CallAnalysis.top_stressors = [], CallAnalysis.common_blockers = [],
              CallAnalysis.is_severe_case = False\<rparr>\<rparr>"
proof -
  have g: "gather_raises env_all_fail = None" by (simp add: env_all_fail_def)
  have d: "(0::real) \<le> 45" by simp
  have "OrchestratorAgent_analyze_call example_lib env_all_fail ''call-1''
          [(''user'', ''hello'')] 45 =
     Inr \<lparr>CallAnalysisReport.call_id = ''call-1'',
          CallAnalysisReport.call_duration_seconds = 45,
          analysis_timestamp = utcnow_isoformat env_all_fail @ ''Z'',
          analysis = \<lparr>CallAnalysis.stressed_detected = False,
              CallAnalysis.sentiment_counts = \<lparr>positive = 0, negative = 0\<rparr>,
              CallAnalysis.top_stressors = [], CallAnalysis.common_blockers = [],
              CallAnalysis.is_severe_case = False\<rparr>\<rparr>"
    by (rule all_units_fail_defaults [OF g example_all_fail d])
  then show ?thesis using g example_all_fail by (simp add: env_all_fail_def)
qed

text \<open>
  C3. When the dispatch has run and each of the five agents returned a result, the run
  returns a report in which every analysis field is the value of the one result that
  sources it: the stress flag of the stress detector's result, the counts of the sentiment
  analyzer's, the stressors of the stressor finder's, the blockers of the blocker finder's,
  the severity flag of the severity classifier's. No other result enters a field.
\<close>

theorem all_units_succeed_fields:
  assumes "gather_raises w = None"
    and "detect_stress lib (stress_detector_call w) = Inr stress"
    and "analyze_sentiment lib (sentiment_analyzer_call w) = Inr sentiment"
    and "identify_stressors lib (stressor_finder_call w) = Inr stressor"
    and "identify_blockers lib (blocker_finder_call w) = Inr blocker"
    and "classify_severity lib (severity_classifier_call w) = Inr severity"
    and "0 \<le> duration_seconds"
  shows "\<exists>rep. OrchestratorAgent_analyze_call lib w cid transcript duration_seconds = Inr rep \<and>
     CallAnalysis.stressed_detected (analysis rep) =
       StressDetectionResult.stressed_detected stress \<and>
     CallAnalysis.sentiment_counts (analysis rep) =
       SentimentAnalysisResult.sentiment_counts sentiment \<and>
     CallAnalysis.top_stressors (analysis rep) =
       StressorIdentificationResult.top_stressors stressor \<and>
     CallAnalysis.common_blockers (analysis rep) =
       BlockerIdentificationResult.common_blockers blocker \<and>
     CallAnalysis.is_severe_case (analysis rep) =
       SeverityClassificationResult.is_severe_case severity"
  using assms
  by (simp add: OrchestratorAgent_analyze_call_def run_defs extract_result_def
      extract_sentiment_def create_nonneg)

theorem all_units_succeed_fields_witness:
  "gather_raises env_all_succeed = None \<and>
   detect_stress example_lib (stress_detector_call env_all_succeed) =
     Inr \<lparr>StressDetectionResult.stressed_detected = True, confidence = Some 0.9\<rparr> \<and>
   analyze_sentiment example_lib (sentiment_analyzer_call env_all_succeed) =
     Inr \<lparr>SentimentAnalysisResult.sentiment_counts = \<lparr>positive = 2, negative = 1\<rparr>\<rparr> \<and>
   identify_stressors example_lib (stressor_finder_call env_all_succeed) =
     Inr \<lparr>StressorIdentificationResult.top_stressors = ''workload, deadlines''\<rparr> \<and>
   identify_blockers example_lib (blocker_finder_call env_all_succeed) =
     Inr \<lparr>BlockerIdentificationResult.common_blockers = ''waiting for approvals''\<rparr> \<and>
   classify_severity example_lib (severity_classifier_call env_all_succeed) =
     Inr \<lparr>SeverityClassificationResult.is_severe_case = True,
          severity_indicators = Some [''self-harm'']\<rparr> \<and>
   (0::real) \<le> 45 \<and>
   (\<exists>rep. OrchestratorAgent_analyze_call example_lib env_all_succeed ''call-1''
            [(''user'', ''hello'')] 45 = Inr rep \<and>
      CallAnalysis.stressed_detected (analysis rep) = True \<and>
      CallAnalysis.sentiment_counts (analysis rep) = \<lparr>positive = 2, negative = 1\<rparr> \<and>
      CallAnalysis.top_stressors (analysis rep) = ''workload, deadlines'' \<and>
      CallAnalysis.common_blockers (analysis rep) = ''waiting for approvals'' \<and>
      CallAnalysis.is_severe_case (analysis rep) = True)"
proof -
  have g: "gather_raises env_all_succeed = None" by (simp add: env_all_succeed_def)
  have d: "(0::real) \<le> 45" by simp
  from all_units_succeed_fields [OF g example_units_succeed d,
      of "''call-1''" "[(''user'', ''hello'')]"]
  show ?thesis using g example_units_succeed by simp
qed

text \<open>
  C9. A report that the run returns carries the call identifier and the duration it was
  called with, whatever the agents did.
\<close>

theorem report_keeps_call_id_and_duration:
  assumes "OrchestratorAgent_analyze_call lib w cid transcript duration_seconds = Inr rep"
  shows "CallAnalysisReport.call_id rep = cid \<and>
         CallAnalysisReport.call_duration_seconds rep = duration_seconds"
  using assms
  by (auto simp: OrchestratorAgent_analyze_call_def Let_def split: option.splits
      dest!: create_Inr)

lemma example_mixed:
  "OrchestratorAgent_analyze_call example_lib
     (env_all_succeed\<lparr>stress_detector_call := Raises ''timed out''\<rparr>) ''call-2''
     [(''user'', ''hello'')] 100.5 =
   Inr \<lparr>CallAnalysisReport.call_id = ''call-2'',
        CallAnalysisReport.call_duration_seconds = 100.5,
        analysis_timestamp = ''2025-11-29T06:55:01.000000Z'',
        analysis = \<lparr>CallAnalysis.stressed_detected = False,
            CallAnalysis.sentiment_counts = \<lparr>positive = 2, negative = 1\<rparr>,
            CallAnalysis.top_stressors = ''workload, deadlines'',
            CallAnalysis.common_blockers = ''waiting for approvals'',
            CallAnalysis.is_severe_case = True\<rparr>\<rparr>"
  by code_simp

theorem report_keeps_call_id_and_duration_witness:
  "OrchestratorAgent_analyze_call example_lib
     (env_all_succeed\<lparr>stress_detector_call := Raises ''timed out''\<rparr>) ''call-2''
     [(''user'', ''hello'')] 100.5 =
   Inr \<lparr>CallAnalysisReport.call_id = ''call-2'',
        CallAnalysisReport.call_duration_seconds = 100.5,
        analysis_timestamp = ''2025-11-29T06:55:01.000000Z'',
        analysis = \<lparr>CallAnalysis.stressed_detected = False,
            CallAnalysis.sentiment_counts = \<lparr>positive = 2, negative = 1\<rparr>,
            CallAnalysis.top_stressors = ''workload, deadlines'',
            CallAnalysis.common_blockers = ''waiting for approvals'',
            CallAnalysis.is_severe_case = True\<rparr>\<rparr> \<and>
   CallAnalysisReport.call_id
     \<lparr>CallAnalysisReport.call_id = ''call-2'',
      CallAnalysisReport.call_duration_seconds = 100.5,
      analysis_timestamp = ''2025-11-29T06:55:01.000000Z'',
      analysis = \<lparr>CallAnalysis.stressed_detected = False,
          CallAnalysis.sentiment_counts = \<lparr>positive = 2, negative = 1\<rparr>,
          CallAnalysis.top_stressors = ''workload, deadlines'',
          CallAnalysis.common_blockers = ''waiting for approvals'',
          CallAnalysis.is_severe_case = True\<rparr>\<rparr> = ''call-2''"
  using report_keeps_call_id_and_duration [OF example_mixed] example_mixed
  by simp

section \<open>What leaves the run\<close>

text \<open>
  C2. For a duration of the interface (not below zero): when the dispatch does not raise,
  the run returns a report whatever each agent did, and the field of every agent that
  raised is its default, so no agent's exception reaches the caller; when the dispatch
  itself raises, the run raises the \<open>RuntimeError\<close> of the orchestration failure and
  returns no report; and that \<open>RuntimeError\<close> is the only exception the run ever raises.
\<close>

theorem only_orchestration_failure_propagates:
  assumes "0 \<le> duration_seconds"
  shows "(gather_raises w = None \<longrightarrow>
            (\<exists>rep. OrchestratorAgent_analyze_call lib w cid transcript duration_seconds =
                     Inr rep \<and>
               (\<forall>e. detect_stress lib (stress_detector_call w) = Inl e \<longrightarrow>
                  CallAnalysis.stressed_detected (analysis rep) = False) \<and>
               (\<forall>e. analyze_sentiment lib (sentiment_analyzer_call w) = Inl e \<longrightarrow>
                  CallAnalysis.sentiment_counts (analysis rep) =
                    \<lparr>positive = 0, negative = 0\<rparr>) \<and>
               (\<forall>e. identify_stressors lib (stressor_finder_call w) = Inl e \<longrightarrow>
                  CallAnalysis.top_stressors (analysis rep) = []) \<and>
               (\<forall>e. identify_blockers lib (blocker_finder_call w) = Inl e \<longrightarrow>
                  CallAnalysis.common_blockers (analysis rep) = []) \<and>
               (\<forall>e. classify_severity lib (severity_classifier_call w) = Inl e \<longrightarrow>
                  CallAnalysis.is_severe_case (analysis rep) = False))) \<and>
         (\<forall>e. gather_raises w = Some e \<longrightarrow>
            OrchestratorAgent_analyze_call lib w cid transcript duration_seconds =
              Inl (RuntimeError (''Critical failure in agent orchestration: '' @ e))) \<and>
         (\<forall>x. OrchestratorAgent_analyze_call lib w cid transcript duration_seconds = Inl x \<longrightarrow>
            (\<exists>e. gather_raises w = Some e \<and>
                 x = RuntimeError (''Critical failure in agent orchestration: '' @ e)))"
proof (intro conjI impI allI)
  assume g: "gather_raises w = None"
  show "\<exists>rep. OrchestratorAgent_analyze_call lib w cid transcript duration_seconds = Inr rep \<and>
      (\<forall>e. detect_stress lib (stress_detector_call w) = Inl e \<longrightarrow>
         CallAnalysis.stressed_detected (analysis rep) = False) \<and>
      (\<forall>e. analyze_sentiment lib (sentiment_analyzer_call w) = Inl e \<longrightarrow>
         CallAnalysis.sentiment_counts (analysis rep) = \<lparr>positive = 0, negative = 0\<rparr>) \<and>
      (\<forall>e. identify_stressors lib (stressor_finder_call w) = Inl e \<longrightarrow>
         CallAnalysis.top_stressors (analysis rep) = []) \<and>
      (\<forall>e. identify_blockers lib (blocker_finder_call w) = Inl e \<longrightarrow>
         CallAnalysis.common_blockers (analysis rep) = []) \<and>
      (\<forall>e. classify_severity lib (severity_classifier_call w) = Inl e \<longrightarrow>
         CallAnalysis.is_severe_case (analysis rep) = False)"
    unfolding run_report [OF g assms]
    by (auto simp: run_defs extract_result_def extract_sentiment_def)
next
  fix e assume "gather_raises w = Some e"
  then show "OrchestratorAgent_analyze_call lib w cid transcript duration_seconds =
      Inl (RuntimeError (''Critical failure in agent orchestration: '' @ e))"
    by (simp add: OrchestratorAgent_analyze_call_def)
next
  fix x assume "OrchestratorAgent_analyze_call lib w cid transcript duration_seconds = Inl x"
  with assms show "\<exists>e. gather_raises w = Some e \<and>
      x = RuntimeError (''Critical failure in agent orchestration: '' @ e)"
    by (cases "gather_raises w")
       (auto simp: OrchestratorAgent_analyze_call_def Let_def create_nonneg)
qed

theorem only_orchestration_failure_propagates_witness:
  "(0::real) \<le> 45 \<and>
   gather_raises env_all_fail = None \<and>
   detect_stress example_lib (stress_detector_call env_all_fail) =
     Inl (RuntimeError ''Agent gemini-flash-latest failed: timed out'') \<and>
   analyze_sentiment example_lib (sentiment_analyzer_call env_all_fail) =
     Inl (RuntimeError ''Agent gemini-flash-latest failed: timed out'') \<and>
   identify_stressors example_lib (stressor_finder_call env_all_fail) =
     Inl (RuntimeError ''Agent gemini-flash-latest failed: timed out'') \<and>
   identify_blockers example_lib (blocker_finder_call env_all_fail) =
     Inl (RuntimeError ''Agent gemini-flash-latest failed: timed out'') \<and>
   classify_severity example_lib (severity_classifier_call env_all_fail) =
     Inl (RuntimeError ''Agent gemini-pro-latest failed: timed out'') \<and>
   (\<exists>rep. OrchestratorAgent_analyze_call example_lib env_all_fail ''call-1''
            [(''user'', ''hello'')] 45 = Inr rep \<and>
      CallAnalysis.stressed_detected (analysis rep) = False \<and>
      CallAnalysis.sentiment_counts (analysis rep) = \<lparr>positive = 0, negative = 0\<rparr> \<and>
      CallAnalysis.top_stressors (analysis rep) = [] \<and>
      CallAnalysis.common_blockers (analysis rep) = [] \<and>
      CallAnalysis.is_severe_case (analysis rep) = False) \<and>
   gather_raises env_gather_raises = Some ''event loop is closed'' \<and>
   OrchestratorAgent_analyze_call example_lib env_gather_raises ''call-1''
     [(''user'', ''hello'')] 45 =
     Inl (RuntimeError ''Critical failure in agent orchestration: event loop is closed'')"
proof -
  have d: "(0::real) \<le> 45" by simp
  have g1: "gather_raises env_all_fail = None" by (simp add: env_all_fail_def)
  have g2: "gather_raises env_gather_raises = Some ''event loop is closed''"
    by (simp add: env_gather_raises_def)
  note f = example_all_fail
  from only_orchestration_failure_propagates [OF d, of env_all_fail example_lib
      "''call-1''" "[(''user'', ''hello'')]"] g1 f
  have r1: "\<exists>rep. OrchestratorAgent_analyze_call example_lib env_all_fail ''call-1''
            [(''user'', ''hello'')] 45 = Inr rep \<and>
      CallAnalysis.stressed_detected (analysis rep) = False \<and>
      CallAnalysis.sentiment_counts (analysis rep) = \<lparr>positive = 0, negative = 0\<rparr> \<and>
      CallAnalysis.top_stressors (analysis rep) = [] \<and>
      CallAnalysis.common_blockers (analysis rep) = [] \<and>
      CallAnalysis.is_severe_case (analysis rep) = False"
    by blast
  from only_orchestration_failure_propagates [OF d, of env_gather_raises example_lib
      "''call-1''" "[(''user'', ''hello'')]"] g2
  have r2: "OrchestratorAgent_analyze_call example_lib env_gather_raises ''call-1''
     [(''user'', ''hello'')] 45 =
     Inl (RuntimeError (''Critical failure in agent orchestration: '' @ ''event loop is closed''))"
    by blast
  from d g1 f r1 g2 r2 show ?thesis by simp
qed

section \<open>Validation at the entry point\<close>

text \<open>
  C8. When the transcript of the processed call is the empty list, \<open>analyze_call\<close> of
  \<open>call_analyzer.py\<close> raises a \<open>ValueError\<close> and leaves the state of the world as it
  found it, whatever the orchestrator would have done with it: the orchestrator's run is
  not reached. The error is the one for the empty transcript unless a required field
  listed before it is missing.
\<close>

theorem empty_transcript_rejected:
  assumes "map_of processed_call_data ''transcript'' = Some (JList [])"
  shows "analyze_call run processed_call_data s =
     (Inl (ValueError
        (if map_of processed_call_data ''call_id'' = None
           then ''Missing required field: call_id''
         else if map_of processed_call_data ''duration_seconds'' = None
           then ''Missing required field: duration_seconds''
         else ''Transcript must be a non-empty list'')), s)"
  using assms
  by (auto simp: analyze_call_def required_fields_def split: option.splits)

theorem empty_transcript_rejected_witness:
  "map_of example_empty_call ''transcript'' = Some (JList []) \<and>
   analyze_call example_run example_empty_call (0::nat) =
     (Inl (ValueError ''Transcript must be a non-empty list''), 0)"
proof -
  have h: "map_of example_empty_call ''transcript'' = Some (JList [])"
    by (simp add: example_empty_call_def)
  from empty_transcript_rejected [OF h, of example_run 0] h
  show ?thesis by (simp add: example_empty_call_def)
qed

section \<open>The persistence form loses nothing\<close>

text \<open>
  C6. Flattening a report into \<open>CallReportDB\<close> and reading the Composite Analysis back
  from the flattened form gives the report's analysis again: the stress flag, both
  sentiment counts, the stressors, the blockers and the severity flag, each unchanged.
\<close>

theorem flatten_round_trip:
  "to_composite_analysis (from_analysis_report report) = Some (analysis report)"
  by (simp add: to_composite_analysis_def from_analysis_report_def model_dump_def Let_def)

section \<open>The transcript of a webhook message\<close>

lemma as_str_Some: "as_str v = Some s \<longleftrightarrow> v = JStr s"
  by (cases v) auto

lemma TranscriptMessage_new_Inr:
  "TranscriptMessage_new r c = Inr m \<longleftrightarrow> r = JStr (role m) \<and> c = JStr (content m)"
  by (cases m) (auto simp: TranscriptMessage_new_def as_str_Some split: option.splits)

lemma transform_loop_skip:
  "\<not> kept raw_msg \<Longrightarrow> transform_loop acc (raw_msg # rest) = transform_loop acc rest"
  by (auto simp: kept_def split: json.splits)

lemma transform_loop_Inr:
  "transform_loop acc raw = Inr t \<Longrightarrow>
     \<exists>t'. t = acc @ t' \<and> list_all2 maps_to (filter kept raw) t'"
proof (induction raw arbitrary: acc)
  case Nil
  then show ?case by simp
next
  case (Cons raw_msg rest)
  show ?case
  proof (cases "kept raw_msg")
    case False
    with Cons show ?thesis by (simp add: transform_loop_skip del: transform_loop.simps)
  next
    case True
    then obtain d where d: "raw_msg = JDict d" "truthy (dict_get d ''message'' (JStr []))"
      by (auto simp: kept_def split: json.splits)
    with Cons.prems obtain m where
      m: "TranscriptMessage_new (dict_get d ''role'' (JStr ''unknown''))
            (dict_get d ''message'' (JStr [])) = Inr m"
      and rest: "transform_loop (acc @ [m]) rest = Inr t"
      by (auto split: sum.splits)
    from Cons.IH [OF rest] obtain t' where
      t': "t = (acc @ [m]) @ t'" "list_all2 maps_to (filter kept rest) t'" by blast
    from m d have "maps_to raw_msg m"
      by (simp add: maps_to_def TranscriptMessage_new_Inr)
    with t' True show ?thesis by auto
  qed
qed

lemma transform_loop_total:
  "\<forall>raw_msg \<in> set raw. kept raw_msg \<longrightarrow> well_typed raw_msg \<Longrightarrow>
     \<exists>t. transform_loop acc raw = Inr t"
proof (induction raw arbitrary: acc)
  case Nil
  then show ?case by simp
next
  case (Cons raw_msg rest)
  then have IH: "\<And>acc. \<exists>t. transform_loop acc rest = Inr t" by simp
  show ?case
  proof (cases "kept raw_msg")
    case False
    with IH show ?thesis by (simp add: transform_loop_skip del: transform_loop.simps)
  next
    case True
    with Cons.prems have wt: "well_typed raw_msg" by simp
    from True obtain d where d: "raw_msg = JDict d" "truthy (dict_get d ''message'' (JStr []))"
      by (auto simp: kept_def split: json.splits)
    from wt d obtain m where
      "TranscriptMessage_new (dict_get d ''role'' (JStr ''unknown''))
         (dict_get d ''message'' (JStr [])) = Inr m"
      by (auto simp: well_typed_def TranscriptMessage_new_def)
    with d have "transform_loop acc (raw_msg # rest) = transform_loop (acc @ [m]) rest"
      by simp
    with IH show ?thesis by simp
  qed
qed

text \<open>
  C10. The transcript that \<open>_transform_messages\<close> produces has one message for each
  entry that is a dictionary with a non-empty \<open>message\<close>, in the order of the entries:
  its role is the entry's role, or \<open>unknown\<close> when the entry has none, and its content is
  the entry's message. Every other entry leaves no trace. A transcript is produced
  whenever the kept entries have strings for role and message.
\<close>

theorem transform_messages_keeps_messages_with_content:
  "(\<forall>transcript. transform_messages raw_messages = Inr transcript \<longrightarrow>
      list_all2 maps_to (filter kept raw_messages) transcript) \<and>
   ((\<forall>raw_msg \<in> set raw_messages. kept raw_msg \<longrightarrow> well_typed raw_msg) \<longrightarrow>
      (\<exists>transcript. transform_messages raw_messages = Inr transcript))"
  unfolding transform_messages_def
  using transform_loop_Inr [of "[]" raw_messages] transform_loop_total [of raw_messages "[]"]
  by auto

lemma example_transcript:
  "transform_messages example_raw_messages =
     Inr [\<lparr>role = ''user'', content = ''Hello''\<rparr>, \<lparr>role = ''unknown'', content = ''Hi there!''\<rparr>]"
  by code_simp

lemma example_kept:
  "filter kept example_raw_messages =
     [JDict [(''role'', JStr ''user''), (''message'', JStr ''Hello''), (''time'', JInt 17)],
      JDict [(''message'', JStr ''Hi there!'')]]"
  by code_simp

theorem transform_messages_keeps_messages_with_content_witness:
  "transform_messages example_raw_messages =
     Inr [\<lparr>role = ''user'', content = ''Hello''\<rparr>, \<lparr>role = ''unknown'', content = ''Hi there!''\<rparr>] \<and>
   filter kept example_raw_messages =
     [JDict [(''role'', JStr ''user''), (''message'', JStr ''Hello''), (''time'', JInt 17)],
      JDict [(''message'', JStr ''Hi there!'')]] \<and>
   list_all2 maps_to
     [JDict [(''role'', JStr ''user''), (''message'', JStr ''Hello''), (''time'', JInt 17)],
      JDict [(''message'', JStr ''Hi there!'')]]
     [\<lparr>role = ''user'', content = ''Hello''\<rparr>, \<lparr>role = ''unknown'', content = ''Hi there!''\<rparr>] \<and>
   well_typed
     (JDict [(''role'', JStr ''user''), (''message'', JStr ''Hello''), (''time'', JInt 17)]) \<and>
   well_typed (JDict [(''message'', JStr ''Hi there!'')])"
proof -
  have wt: "well_typed
     (JDict [(''role'', JStr ''user''), (''message'', JStr ''Hello''), (''time'', JInt 17)])"
    "well_typed (JDict [(''message'', JStr ''Hi there!'')])"
    by (simp_all add: well_typed_def dict_get_def)
  have "\<forall>raw_msg \<in> set (filter kept example_raw_messages). well_typed raw_msg"
    using wt by (simp add: example_kept)
  then have "\<forall>raw_msg \<in> set example_raw_messages. kept raw_msg \<longrightarrow> well_typed raw_msg"
    by simp
  with transform_messages_keeps_messages_with_content [of example_raw_messages]
  have "list_all2 maps_to (filter kept example_raw_messages)
     [\<lparr>role = ''user'', content = ''Hello''\<rparr>, \<lparr>role = ''unknown'', content = ''Hi there!''\<rparr>]"
    using example_transcript by blast
  with wt example_transcript example_kept show ?thesis by simp
qed

section \<open>Parsing the reply\<close>

lemma find_scan_first:
  "k \<le> length s \<Longrightarrow> take (length sub) (drop k s) = sub \<Longrightarrow>
   (\<forall>j<k. take (length sub) (drop j s) \<noteq> sub) \<Longrightarrow>
   find_scan sub s i = int (i + k)"
proof (induction s arbitrary: i k)
  case Nil
  then show ?case by auto
next
  case (Cons c cs)
  show ?case
  proof (cases k)
    case 0
    with Cons.prems show ?thesis by simp
  next
    case (Suc k')
    with Cons.prems have ne: "take (length sub) (c # cs) \<noteq> sub" by force
    have "\<forall>j<k'. take (length sub) (drop j cs) \<noteq> sub"
    proof (intro allI impI)
      fix j assume "j < k'"
      then have "Suc j < k" using Suc by simp
      with Cons.prems(3) have "take (length sub) (drop (Suc j) (c # cs)) \<noteq> sub" by blast
      then show "take (length sub) (drop j cs) \<noteq> sub" by simp
    qed
    with Cons.IH [of k' "Suc i"] Cons.prems Suc
    have "find_scan sub cs (Suc i) = int (Suc i + k')" by simp
    with ne Suc show ?thesis by simp
  qed
qed

lemma str_find_first:
  assumes "s = xs @ ys" and "occurs_at sub ys k"
    and "\<forall>j<k. \<not> occurs_at sub ys j"
  shows "str_find s sub (int (length xs)) = int (length xs + k)"
proof -
  from assms(2) have k: "k \<le> length ys" "take (length sub) (drop k ys) = sub"
    by (simp_all add: occurs_at_def)
  from assms(3) k(1) have "\<forall>j<k. take (length sub) (drop j ys) \<noteq> sub"
    by (auto simp: occurs_at_def)
  from find_scan_first [OF k this, of "length xs"] assms(1)
  show ?thesis by (simp add: str_find_def Let_def)
qed

lemma slice_middle:
  "slice (xs @ ys @ zs) (int (length xs)) (int (length xs + length ys)) = ys"
  by (simp add: slice_def Let_def)

lemma occurs_at_append_left:
  "occurs_at sub (xs @ ys) (length xs + j) \<longleftrightarrow> occurs_at sub ys j"
  by (simp add: occurs_at_def)

lemma occurs_at_here: "occurs_at sub (sub @ rest) 0"
  by (simp add: occurs_at_def)

lemma code_block_text_fenced:
  assumes rt: "response_text = pre @ fence @ body @ ''```'' @ post"
    and fence: "fence = ''```json'' \<or> fence = ''```'' \<and> \<not> str_contains ''```json'' response_text"
    and first: "\<forall>j<length pre. \<not> occurs_at fence response_text j"
    and closing: "\<forall>j<length body. \<not> occurs_at ''```'' (body @ ''```'' @ post) j"
  shows "code_block_text response_text = strip body"
proof -
  have occ: "occurs_at fence response_text (length pre)"
    by (simp add: rt occurs_at_def)
  have start: "str_find response_text fence 0 = int (length pre)"
    using str_find_first [of response_text "[]" response_text fence "length pre"] occ first
    by simp
  then have contains: "str_contains fence response_text"
    by (simp add: str_contains_def)
  have occ2: "occurs_at ''```'' (body @ ''```'' @ post) (length body)"
    by (simp add: occurs_at_def)
  have "response_text = (pre @ fence) @ (body @ ''```'' @ post)" by (simp add: rt)
  from str_find_first [OF this occ2 closing]
  have stop: "str_find response_text ''```'' (int (length pre) + int (length fence)) =
          int (length pre + length fence + length body)"
    by (simp add: add.assoc)
  have sl: "slice response_text (int (length pre) + int (length fence))
             (int (length pre + length fence + length body)) = body"
    using slice_middle [of "pre @ fence" body "''```'' @ post"] by (simp add: rt)
  from fence show ?thesis
  proof
    assume f: "fence = ''```json''"
    with contains start stop sl show ?thesis
      by (simp add: code_block_text_def Let_def)
  next
    assume f: "fence = ''```'' \<and> \<not> str_contains ''```json'' response_text"
    with contains start stop sl show ?thesis
      by (simp add: code_block_text_def Let_def)
  qed
qed

lemma occurs_at_hd:
  assumes "sub \<noteq> []" and "occurs_at sub s j"
  shows "j < length s \<and> s ! j = hd sub"
proof -
  define t where "t = drop j s"
  from assms(2) have eq: "take (length sub) t = sub" by (simp add: occurs_at_def t_def)
  with assms(1) have "t \<noteq> []" by auto
  then have j: "j < length s" by (simp add: t_def)
  from assms(1) have "0 < length sub" by simp
  then have "hd (take (length sub) t) = hd t" by (rule hd_take)
  with eq have "hd sub = hd t" by simp
  also from j have "hd t = s ! j" unfolding t_def by (rule hd_drop_conv_nth)
  finally show ?thesis using j by simp
qed

lemma no_occurrence_before:
  assumes "sub \<noteq> []" and "hd sub \<notin> set xs" and "j < length xs"
  shows "\<not> occurs_at sub (xs @ ys) j"
proof
  assume "occurs_at sub (xs @ ys) j"
  from occurs_at_hd [OF assms(1) this] assms(3) have "xs ! j = hd sub"
    by (simp add: nth_append)
  with assms(2,3) show False by (metis nth_mem)
qed

text \<open>
  C7. When the reply holds its object in a code block, opened by the first \<open>```json\<close>
  fence, or by the first \<open>```\<close> fence in a reply without \<open>```json\<close>, and closed by the
  next \<open>```\<close>, then what \<open>json.loads\<close> is given is the inside of the block with the
  whitespace at its ends removed: the fences are gone before parsing. On every reply,
  fenced or not, a text that \<open>json.loads\<close> rejects makes \<open>_parse_json_response\<close> raise
  the \<open>ValueError\<close> of a failed parse; nothing is returned in its place.
\<close>

theorem parse_json_response_strips_fence:
  assumes "response_text = pre @ fence @ body @ ''```'' @ post"
    and "fence = ''```json'' \<or> fence = ''```'' \<and> \<not> str_contains ''```json'' response_text"
    and "\<forall>j<length pre. \<not> occurs_at fence response_text j"
    and "\<forall>j<length body. \<not> occurs_at ''```'' (body @ ''```'' @ post) j"
  shows "code_block_text response_text = strip body \<and>
         parse_json_response lib response_text =
           (case json_loads lib (strip body) of
              Inl e \<Rightarrow> Inl (ValueError (parse_failed e (strip body)))
            | Inr v \<Rightarrow> Inr v) \<and>
         (\<forall>t e. json_loads lib (code_block_text t) = Inl e \<longrightarrow>
            parse_json_response lib t = Inl (ValueError (parse_failed e (code_block_text t))))"
  using code_block_text_fenced [OF assms]
  by (simp add: parse_json_response_def Let_def)

theorem parse_json_response_strips_fence_witness:
  \<open>parse_json_response example_lib example_json_fenced =
     Inr (JDict [(''sentiment_counts'',
                  JDict [(''positive'', JInt 2), (''negative'', JInt 1)])]) \<and>
   parse_json_response example_lib example_plain_fenced =
     Inr (JDict [(''top_stressors'', JStr ''workload, deadlines'')]) \<and>
   parse_json_response example_lib ''I cannot label this call.'' =
     Inl (ValueError (parse_failed ''Expecting value: line 1 column 1 (char 0)''
                        ''I cannot label this call.''))\<close>
proof -
  let ?pre = "''Here is the result:'' @ [CHR 0x0A]"
  let ?body1 = \<open>[CHR 0x0A] @ ''{"sentiment_counts": {"positive": 2, "negative": 1}}'' @ [CHR 0x0A]\<close>
  let ?body2 = \<open>[CHR 0x0A] @ ''{"top_stressors": "workload, deadlines"}'' @ [CHR 0x0A]\<close>
  have a1: "example_json_fenced = ?pre @ ''```json'' @ ?body1 @ ''```'' @ [CHR 0x0A]"
    by (simp add: example_json_fenced_def)
  have a2: "''```json'' = ''```json'' \<or>
            ''```json'' = ''```'' \<and> \<not> str_contains ''```json'' example_json_fenced"
    by simp
  have a3: "\<forall>j<length ?pre. \<not> occurs_at ''```json'' example_json_fenced j"
    unfolding a1 by (intro allI impI no_occurrence_before) simp_all
  have a4: "\<forall>j<length ?body1. \<not> occurs_at ''```'' (?body1 @ ''```'' @ [CHR 0x0A]) j"
    by (intro allI impI no_occurrence_before) simp_all
  have b1: "example_plain_fenced = [] @ ''```'' @ ?body2 @ ''```'' @ []"
    by (simp add: example_plain_fenced_def)
  have "\<not> str_contains ''```json'' example_plain_fenced" by code_simp
  then have b2: "''```'' = ''```json'' \<or>
            ''```'' = ''```'' \<and> \<not> str_contains ''```json'' example_plain_fenced"
    by simp
  have b3: "\<forall>j<length ([]::string). \<not> occurs_at ''```'' example_plain_fenced j" by simp
  have b4: "\<forall>j<length ?body2. \<not> occurs_at ''```'' (?body2 @ ''```'' @ []) j"
    by (intro allI impI no_occurrence_before) simp_all
  have s1: \<open>strip ?body1 = ''{"sentiment_counts": {"positive": 2, "negative": 1}}''\<close>
    by code_simp
  have s2: \<open>strip ?body2 = ''{"top_stressors": "workload, deadlines"}''\<close>
    by code_simp
  have l1: \<open>json_loads example_lib ''{"sentiment_counts": {"positive": 2, "negative": 1}}'' =
     Inr (JDict [(''sentiment_counts'',
                  JDict [(''positive'', JInt 2), (''negative'', JInt 1)])])\<close>
    by code_simp
  have l2: \<open>json_loads example_lib ''{"top_stressors": "workload, deadlines"}'' =
     Inr (JDict [(''top_stressors'', JStr ''workload, deadlines'')])\<close>
    by code_simp
  have c3: "code_block_text ''I cannot label this call.'' = ''I cannot label this call.''"
    by code_simp
  have l3: "json_loads example_lib ''I cannot label this call.'' =
     Inl ''Expecting value: line 1 column 1 (char 0)''"
    by code_simp
  note w1 = parse_json_response_strips_fence [OF a1 a2 a3 a4, of example_lib]
  note w2 = parse_json_response_strips_fence [OF b1 b2 b3 b4, of example_lib]
  from w1 have r1: "parse_json_response example_lib example_json_fenced =
     Inr (JDict [(''sentiment_counts'',
                  JDict [(''positive'', JInt 2), (''negative'', JInt 1)])])"
    unfolding s1 l1 by simp
  from w2 have r2: "parse_json_response example_lib example_plain_fenced =
     Inr (JDict [(''top_stressors'', JStr ''workload, deadlines'')])"
    unfolding s2 l2 by simp
  from w1 have "\<forall>t e. json_loads example_lib (code_block_text t) = Inl e \<longrightarrow>
      parse_json_response example_lib t = Inl (ValueError (parse_failed e (code_block_text t)))"
    by blast
  with c3 l3 have r3: "parse_json_response example_lib ''I cannot label this call.'' =
     Inl (ValueError (parse_failed ''Expecting value: line 1 column 1 (char 0)''
                        ''I cannot label this call.''))"
    by metis
  from r1 r2 r3 show ?thesis by simp
qed

section \<open>A reply blocked by the safety filters\<close>







end
